theory Spec2Isabelle
  imports Complex_Main "HOL-Library.Multiset"
begin

section \<open>Orders service: data model\<close>

text \<open>
  The development embeds \<^verbatim>\<open>src/project/service_orders/main.py\<close>. Every endpoint
  reads and writes one table, \<^verbatim>\<open>orders\<close>; the table is the state, threaded
  explicitly through each handler, and the handler's \<^verbatim>\<open>BaseResponse\<close> is the
  value returned beside it.

  A \<^verbatim>\<open>uuid.UUID\<close> is a natural number: the source only compares identifiers for
  equality, which is equality of their integer values. Timestamps are integers (ticks
  of the database clock).

  The connection to the database is taken to be up. Each handler's
  \<^verbatim>\<open>except Exception\<close> branch, which answers \<^verbatim>\<open>DATABASE_ERROR\<close>, is then entered
  only when a statement raises: an insert under a key that is present or of items the
  JSON column refuses, or a \<^verbatim>\<open>LIMIT\<close> or \<^verbatim>\<open>OFFSET\<close> outside the range the
  database takes. The bearer token has been verified before a handler
  runs; a request without a valid token is answered 401 and is not a call of a handler.
\<close>

type_synonym uuid = nat
type_synonym timestamp = int

text \<open>
  A Python \<^verbatim>\<open>float\<close>: a finite value, an infinity, or NaN, all of which a request
  body can carry. The source only compares floats with zero, which is exact, so the
  finite values are modelled as reals. \<^verbatim>\<open>v < 0\<close> and \<^verbatim>\<open>v <= 0\<close> are false of NaN
  and of the positive infinity, and true of the negative infinity.
\<close>

datatype pyfloat = Finite real | PosInf | NegInf | NaN

fun lt_zero :: "pyfloat \<Rightarrow> bool" where
  "lt_zero (Finite x) = (x < 0)"
| "lt_zero PosInf = False"
| "lt_zero NegInf = True"
| "lt_zero NaN = False"

fun le_zero :: "pyfloat \<Rightarrow> bool" where
  "le_zero (Finite x) = (x \<le> 0)"
| "le_zero PosInf = False"
| "le_zero NegInf = True"
| "le_zero NaN = False"

fun is_finite :: "pyfloat \<Rightarrow> bool" where
  "is_finite (Finite x) = True"
| "is_finite PosInf = False"
| "is_finite NegInf = False"
| "is_finite NaN = False"

record OrderItem =
  product_id :: uuid
  product_name :: string
  quantity :: int
  price :: pyfloat

record OrderCreate =
  items :: "OrderItem list"
  total_amount :: pyfloat

text \<open>\<^verbatim>\<open>status: Optional[str] = None\<close>: an absent field and a JSON null are both \<open>None\<close>.\<close>

record OrderUpdate =
  status :: "string option"

text \<open>
  One row of \<^verbatim>\<open>orders\<close>, in column order: the source reads it as the tuple
  \<^verbatim>\<open>order[0]\<close> (id), \<^verbatim>\<open>order[1]\<close> (user_id), \<^verbatim>\<open>order[2]\<close> (items),
  \<^verbatim>\<open>order[3]\<close> (total_amount), \<^verbatim>\<open>order[4]\<close> (status), \<^verbatim>\<open>order[5]\<close>
  (created_at), \<^verbatim>\<open>order[6]\<close> (updated_at).
\<close>

record order_row =
  col_id :: uuid
  col_user_id :: uuid
  col_items :: "OrderItem list"
  col_total_amount :: pyfloat
  col_status :: string
  col_created_at :: timestamp
  col_updated_at :: timestamp

type_synonym orders_table = "order_row list"

text \<open>
  The verified JWT payload handed to every handler by \<^verbatim>\<open>get_current_user\<close>; the
  users service issues it with the keys \<^verbatim>\<open>user_id\<close> and \<^verbatim>\<open>role\<close>.
\<close>

record token_payload =
  user_id :: uuid
  role :: string

datatype response_data =
    OrderIdData uuid
  | MessageData string
  | OrderData order_row
  | OrdersData "order_row list" int int int

text \<open>\<^verbatim>\<open>BaseResponse\<close>; the error dictionary is the pair (code, message).\<close>

record BaseResponse =
  success :: bool
  data :: "response_data option"
  error :: "(string \<times> string) option"

definition ok :: "response_data \<Rightarrow> BaseResponse" where
  "ok d = \<lparr>success = True, data = Some d, error = None\<rparr>"

definition failure :: "string \<Rightarrow> string \<Rightarrow> BaseResponse" where
  "failure code message = \<lparr>success = False, data = None, error = Some (code, message)\<rparr>"

text \<open>
  A request that fails the framework's validation never reaches the handler: FastAPI
  answers 422 with the list of violated constraints, each located by its field.
\<close>

datatype constraint = GreaterEqual int | LessEqual int | ValueError string

datatype http_response =
    HTTP_422 "(string \<times> constraint) list"
  | HTTP_200 BaseResponse

section \<open>Status constants and the transition table\<close>

definition CREATED :: string where "CREATED = ''created''"
definition IN_PROGRESS :: string where "IN_PROGRESS = ''in_progress''"
definition COMPLETED :: string where "COMPLETED = ''completed''"
definition CANCELLED :: string where "CANCELLED = ''cancelled''"

definition ORDER_STATUSES :: "string list" where
  "ORDER_STATUSES = [''created'', ''in_progress'', ''completed'', ''cancelled'']"

definition VALID_STATUS_TRANSITIONS :: "string \<rightharpoonup> string list" where
  "VALID_STATUS_TRANSITIONS = map_of
     [(''created'', [''in_progress'', ''cancelled'']),
      (''in_progress'', [''completed'', ''cancelled'']),
      (''completed'', []),
      (''cancelled'', [])]"

text \<open>\<^verbatim>\<open>d.get(k, [])\<close>\<close>

definition dict_get :: "('k \<rightharpoonup> 'v list) \<Rightarrow> 'k \<Rightarrow> 'v list" where
  "dict_get d k = (case d k of None \<Rightarrow> [] | Some v \<Rightarrow> v)"

definition is_valid_status_transition :: "string \<Rightarrow> string \<Rightarrow> bool" where
  "is_valid_status_transition current_status new_status =
     (let allowed_transitions = dict_get VALID_STATUS_TRANSITIONS current_status
      in new_status \<in> set allowed_transitions)"

text \<open>
  \<^verbatim>\<open>f"{xs}"\<close> for a list of strings: the \<^verbatim>\<open>repr\<close> of each element in single
  quotes, separated by a comma and a space, in brackets. Exact for strings without
  quotes, backslashes and unprintable characters, as all entries of the two tables are.
\<close>

definition squote :: string where
  "squote = [CHR 0x27]"

fun repr_items :: "string list \<Rightarrow> string" where
  "repr_items [] = []"
| "repr_items [s] = squote @ s @ squote"
| "repr_items (s # t # ss) = squote @ s @ squote @ '', '' @ repr_items (t # ss)"

definition repr_list :: "string list \<Rightarrow> string" where
  "repr_list xs = ''['' @ repr_items xs @ '']''"

section \<open>The store\<close>

text \<open>\<^verbatim>\<open>SELECT * FROM orders WHERE id = %s\<close> followed by \<^verbatim>\<open>fetchone()\<close>.\<close>

definition select_by_id :: "orders_table \<Rightarrow> uuid \<Rightarrow> order_row option" where
  "select_by_id db order_id = find (\<lambda>r. col_id r = order_id) db"

text \<open>
  \<^verbatim>\<open>UPDATE orders SET status = %s, updated_at = CURRENT_TIMESTAMP WHERE id = %s\<close>,
  with the database clock reading \<open>now\<close>.
\<close>

definition update_status :: "orders_table \<Rightarrow> uuid \<Rightarrow> string \<Rightarrow> timestamp \<Rightarrow> orders_table" where
  "update_status db order_id new_status now =
     map (\<lambda>r. if col_id r = order_id
               then r\<lparr>col_status := new_status, col_updated_at := now\<rparr> else r) db"

text \<open>
  Modelled from the spec: the DDL of the \<^verbatim>\<open>orders\<close> table is not in the repository.
  The spec describes the store as keyed by order id, so an \<^verbatim>\<open>INSERT\<close> of an id that
  is already present raises; \<^verbatim>\<open>created_at\<close> and \<^verbatim>\<open>updated_at\<close>, which the
  statement does not supply, take the clock's value. The handlers read \<^verbatim>\<open>order[2]\<close>
  back as a list of dictionaries, so \<^verbatim>\<open>items\<close> is a JSON column: its input refuses
  the tokens \<^verbatim>\<open>NaN\<close> and \<^verbatim>\<open>Infinity\<close> that \<^verbatim>\<open>json.dumps\<close> writes for a price
  that is not finite. The other columns keep the value they are handed. The left result
  is the text of the driver's exception.
\<close>

definition insert_order ::
  "orders_table \<Rightarrow> uuid \<Rightarrow> uuid \<Rightarrow> OrderItem list \<Rightarrow> pyfloat \<Rightarrow> string \<Rightarrow> timestamp
     \<Rightarrow> string + orders_table" where
  "insert_order db order_id uid its amount st now =
     (if \<not> list_all (\<lambda>item. is_finite (price item)) its
      then Inl ''invalid input syntax for type json''
      else if order_id \<in> col_id ` set db
      then Inl ''duplicate key value violates unique constraint''
      else Inr (db @ [\<lparr>col_id = order_id, col_user_id = uid, col_items = its,
                        col_total_amount = amount, col_status = st,
                        col_created_at = now, col_updated_at = now\<rparr>]))"

section \<open>Handlers\<close>

text \<open>
  \<^verbatim>\<open>PUT /v1/orders/{order_id}\<close>. The test \<^verbatim>\<open>if order_update.status:\<close> holds
  for a string that is present and not empty; an absent, null or empty status skips the
  whole block.
\<close>

definition update_order ::
  "orders_table \<Rightarrow> uuid \<Rightarrow> OrderUpdate \<Rightarrow> token_payload \<Rightarrow> timestamp
     \<Rightarrow> orders_table \<times> BaseResponse" where
  "update_order db order_id order_update current_user now =
     (case select_by_id db order_id of
        None \<Rightarrow> (db, failure ''ORDER_NOT_FOUND'' ''Order not found'')
      | Some order \<Rightarrow>
          let order_user_id = col_user_id order;
              current_user_id = user_id current_user;
              user_role = role current_user
          in if order_user_id \<noteq> current_user_id \<and> user_role \<noteq> ''admin''
             then (db, failure ''ACCESS_DENIED'' ''Access to update this order denied'')
             else (case status order_update of
                None \<Rightarrow> (db, ok (MessageData ''Order updated successfully''))
              | Some new_status \<Rightarrow>
                  if new_status = []
                  then (db, ok (MessageData ''Order updated successfully''))
                  else if new_status \<notin> set ORDER_STATUSES
                  then (db, failure ''INVALID_STATUS''
                              (''Invalid status. Allowed: '' @ repr_list ORDER_STATUSES))
                  else let current_status = col_status order in
                  if \<not> is_valid_status_transition current_status new_status
                  then (db, failure ''INVALID_STATUS_TRANSITION''
                              (''Cannot change status from '' @ squote @ current_status @ squote
                               @ '' to '' @ squote @ new_status @ squote
                               @ ''. Allowed transitions: ''
                               @ repr_list (dict_get VALID_STATUS_TRANSITIONS current_status)))
                  else (update_status db order_id new_status now,
                        ok (MessageData ''Order updated successfully''))))"

text \<open>\<^verbatim>\<open>DELETE /v1/orders/{order_id}\<close>: only the owner passes; the role is not read.\<close>

definition cancel_order ::
  "orders_table \<Rightarrow> uuid \<Rightarrow> token_payload \<Rightarrow> timestamp \<Rightarrow> orders_table \<times> BaseResponse" where
  "cancel_order db order_id current_user now =
     (case select_by_id db order_id of
        None \<Rightarrow> (db, failure ''ORDER_NOT_FOUND'' ''Order not found'')
      | Some order \<Rightarrow>
          let order_user_id = col_user_id order;
              current_user_id = user_id current_user
          in if order_user_id \<noteq> current_user_id
             then (db, failure ''ACCESS_DENIED'' ''Only order owner can cancel the order'')
             else let current_status = col_status order in
             if \<not> is_valid_status_transition current_status CANCELLED
             then (db, failure ''CANNOT_CANCEL''
                         (''Cannot cancel order with status '' @ squote @ current_status @ squote
                          @ ''. Order can only be cancelled from '' @ squote @ ''created'' @ squote
                          @ '' or '' @ squote @ ''in_progress'' @ squote @ '' status.''))
             else (update_status db order_id CANCELLED now,
                   ok (MessageData ''Order cancelled successfully'')))"

text \<open>\<^verbatim>\<open>GET /v1/orders/{order_id}\<close>\<close>

definition get_order :: "orders_table \<Rightarrow> uuid \<Rightarrow> token_payload \<Rightarrow> BaseResponse" where
  "get_order db order_id current_user =
     (case select_by_id db order_id of
        None \<Rightarrow> failure ''ORDER_NOT_FOUND'' ''Order not found''
      | Some order \<Rightarrow>
          let order_user_id = col_user_id order;
              current_user_id = user_id current_user;
              user_role = role current_user
          in if order_user_id \<noteq> current_user_id \<and> user_role \<noteq> ''admin''
             then failure ''ACCESS_DENIED'' ''Access to this order denied''
             else ok (OrderData order))"

subsection \<open>Creation\<close>

text \<open>
  The field validators of \<^verbatim>\<open>OrderItem\<close> and \<^verbatim>\<open>OrderCreate\<close>: each raises
  \<^verbatim>\<open>ValueError\<close> with its message or returns the value. No validator is attached
  to \<^verbatim>\<open>items\<close>.
\<close>

definition validate_quantity :: "int \<Rightarrow> string + int" where
  "validate_quantity v = (if v \<le> 0 then Inl ''Quantity must be positive'' else Inr v)"

definition validate_price :: "pyfloat \<Rightarrow> string + pyfloat" where
  "validate_price v = (if lt_zero v then Inl ''Price cannot be negative'' else Inr v)"

definition validate_total_amount :: "pyfloat \<Rightarrow> string + pyfloat" where
  "validate_total_amount v =
     (if le_zero v then Inl ''Total amount must be positive'' else Inr v)"

text \<open>The errors one field contributes to the 422 answer.\<close>

definition field_errors :: "string \<Rightarrow> string + 'a \<Rightarrow> (string \<times> constraint) list" where
  "field_errors field r = (case r of Inl msg \<Rightarrow> [(field, ValueError msg)] | Inr _ \<Rightarrow> [])"

definition OrderItem_errors :: "OrderItem \<Rightarrow> (string \<times> constraint) list" where
  "OrderItem_errors item =
     field_errors ''quantity'' (validate_quantity (quantity item))
     @ field_errors ''price'' (validate_price (price item))"

definition OrderCreate_errors :: "OrderCreate \<Rightarrow> (string \<times> constraint) list" where
  "OrderCreate_errors order_data =
     concat (map OrderItem_errors (items order_data))
     @ field_errors ''total_amount'' (validate_total_amount (total_amount order_data))"

definition validate_user_exists :: "uuid \<Rightarrow> bool" where
  "validate_user_exists uid = True"

text \<open>
  The handler body, entered with a validated \<^verbatim>\<open>OrderCreate\<close>. \<open>new_id\<close> is the value
  \<^verbatim>\<open>uuid.uuid4()\<close> returns. The loop that builds \<^verbatim>\<open>items_for_json\<close> copies the four
  fields of each item, and the JSON column gives them back on reading, so the stored
  items are the list itself. An exception of the insert is caught, rolled back (the
  table is as before) and reported as \<^verbatim>\<open>DATABASE_ERROR\<close>.
\<close>

definition create_order ::
  "orders_table \<Rightarrow> OrderCreate \<Rightarrow> token_payload \<Rightarrow> uuid \<Rightarrow> timestamp
     \<Rightarrow> orders_table \<times> BaseResponse" where
  "create_order db order_data current_user new_id now =
     (let uid = user_id current_user in
      if \<not> validate_user_exists uid
      then (db, failure ''USER_NOT_FOUND'' ''User not found'')
      else let order_id = new_id;
               items_for_json = map (\<lambda>item. \<lparr>product_id = product_id item,
                                                product_name = product_name item,
                                                quantity = quantity item,
                                                price = price item\<rparr>) (items order_data)
           in case insert_order db order_id uid items_for_json (total_amount order_data)
                     CREATED now of
                Inl e \<Rightarrow> (db, failure ''DATABASE_ERROR'' (''Order creation failed: '' @ e))
              | Inr db' \<Rightarrow> (db', ok (OrderIdData order_id)))"

text \<open>\<^verbatim>\<open>POST /v1/orders\<close>: the body is validated, then the handler runs.\<close>

definition post_orders ::
  "orders_table \<Rightarrow> OrderCreate \<Rightarrow> token_payload \<Rightarrow> uuid \<Rightarrow> timestamp
     \<Rightarrow> orders_table \<times> http_response" where
  "post_orders db order_data current_user new_id now =
     (if OrderCreate_errors order_data \<noteq> []
      then (db, HTTP_422 (OrderCreate_errors order_data))
      else let (db', r) = create_order db order_data current_user new_id now
           in (db', HTTP_200 r))"

subsection \<open>Listing\<close>

text \<open>
  \<^verbatim>\<open>ORDER BY created_at DESC\<close>. SQL leaves the order of rows with equal
  \<^verbatim>\<open>created_at\<close> to the database, which may choose it anew for every query. The
  choice made for one query is the parameter \<open>tiebreak\<close>, a ranking of the rows: rows
  are put in descending order of \<^verbatim>\<open>created_at\<close>, and rows that agree on it in
  ascending order of their rank.
\<close>

definition order_by_created_at_desc ::
  "(order_row \<Rightarrow> nat) \<Rightarrow> order_row list \<Rightarrow> order_row list" where
  "order_by_created_at_desc tiebreak rows =
     sort_key (\<lambda>r. - col_created_at r) (sort_key tiebreak rows)"

text \<open>
  The conditions the handler appends to both queries, with their parameters:
  \<^verbatim>\<open>user_id = %s\<close> unless the role is admin, then \<^verbatim>\<open>status = %s\<close> when
  \<^verbatim>\<open>if status:\<close> holds (a status that is present and not empty). The flag
  \<^verbatim>\<open>where_used\<close> only chooses between the keywords \<^verbatim>\<open>WHERE\<close> and \<^verbatim>\<open>AND\<close>.
\<close>

datatype condition = UserIdEq uuid | StatusEq string

definition query_conditions :: "token_payload \<Rightarrow> string option \<Rightarrow> condition list" where
  "query_conditions current_user status_filter =
     (if role current_user = ''admin'' then [] else [UserIdEq (user_id current_user)])
     @ (case status_filter of
          None \<Rightarrow> []
        | Some s \<Rightarrow> if s = [] then [] else [StatusEq s])"

fun satisfies :: "order_row \<Rightarrow> condition \<Rightarrow> bool" where
  "satisfies r (UserIdEq uid) = (col_user_id r = uid)"
| "satisfies r (StatusEq s) = (col_status r = s)"

definition where_clause :: "condition list \<Rightarrow> order_row \<Rightarrow> bool" where
  "where_clause conditions r = list_all (satisfies r) conditions"

text \<open>
  PostgreSQL takes \<^verbatim>\<open>LIMIT\<close> and \<^verbatim>\<open>OFFSET\<close> as \<^verbatim>\<open>bigint\<close>: it raises on a
  negative value and on one beyond \<^verbatim>\<open>9223372036854775807\<close>.
\<close>

definition BIGINT_MAX :: int where
  "BIGINT_MAX = 9223372036854775807"

text \<open>
  The handler body. A query that raises is caught and answered \<^verbatim>\<open>DATABASE_ERROR\<close>.
  The dictionaries of \<^verbatim>\<open>orders_data\<close> carry the seven columns of each row, so the
  rows stand for them. Python's \<^verbatim>\<open>page\<close>, \<^verbatim>\<open>size\<close> and \<^verbatim>\<open>offset\<close> are
  unbounded integers.
\<close>

definition get_user_orders ::
  "orders_table \<Rightarrow> token_payload \<Rightarrow> int \<Rightarrow> int \<Rightarrow> string option
     \<Rightarrow> (order_row \<Rightarrow> nat) \<Rightarrow> BaseResponse" where
  "get_user_orders db current_user page size' status_filter tiebreak =
     (let offset = (page - 1) * size' in
      if size' < 0 \<or> offset < 0 \<or> BIGINT_MAX < size' \<or> BIGINT_MAX < offset
      then failure ''DATABASE_ERROR'' ''Failed to get orders''
      else let conditions = query_conditions current_user status_filter;
               orders = take (nat size') (drop (nat offset)
                          (order_by_created_at_desc tiebreak
                             (filter (where_clause conditions) db)));
               total' = int (length (filter (where_clause conditions) db))
           in ok (OrdersData orders total' page size'))"

text \<open>
  \<^verbatim>\<open>GET /v1/orders\<close>: \<^verbatim>\<open>page: int = Query(1, ge=1)\<close> and
  \<^verbatim>\<open>size: int = Query(10, ge=1, le=100)\<close> are checked by the framework before the
  handler is entered; a parameter that is absent takes its default. There is no upper
  bound on \<^verbatim>\<open>page\<close>.
\<close>

definition query_errors :: "int \<Rightarrow> int \<Rightarrow> (string \<times> constraint) list" where
  "query_errors page size' =
     (if page < 1 then [(''page'', GreaterEqual 1)] else [])
     @ (if size' < 1 then [(''size'', GreaterEqual 1)]
        else if size' > 100 then [(''size'', LessEqual 100)] else [])"

definition get_orders ::
  "orders_table \<Rightarrow> token_payload \<Rightarrow> int option \<Rightarrow> int option \<Rightarrow> string option
     \<Rightarrow> (order_row \<Rightarrow> nat) \<Rightarrow> http_response" where
  "get_orders db current_user page_param size_param status_filter tiebreak =
     (let page = (case page_param of None \<Rightarrow> 1 | Some p \<Rightarrow> p);
          size' = (case size_param of None \<Rightarrow> 10 | Some s \<Rightarrow> s)
      in if query_errors page size' \<noteq> []
         then HTTP_422 (query_errors page size')
         else HTTP_200 (get_user_orders db current_user page size' status_filter tiebreak))"

section \<open>Sequences of requests\<close>

text \<open>
  A client's request to one of the five endpoints, with what the environment supplies to
  the handler (the identifier drawn, the clock, the database's order among equal
  timestamps), and the table the request leaves behind. The two \<^verbatim>\<open>GET\<close> handlers
  execute no writing statement.
\<close>

datatype request =
    PostOrders OrderCreate token_payload uuid timestamp
  | GetOrder uuid token_payload
  | GetOrders token_payload "int option" "int option" "string option" "order_row \<Rightarrow> nat"
  | PutOrder uuid OrderUpdate token_payload timestamp
  | DeleteOrder uuid token_payload timestamp

fun serve :: "orders_table \<Rightarrow> request \<Rightarrow> orders_table" where
  "serve db (PostOrders order_data u new_id now) = fst (post_orders db order_data u new_id now)"
| "serve db (GetOrder order_id u) = db"
| "serve db (GetOrders u page_param size_param status_filter tiebreak) = db"
| "serve db (PutOrder order_id order_update u now) = fst (update_order db order_id order_update u now)"
| "serve db (DeleteOrder order_id u now) = fst (cancel_order db order_id u now)"

fun serve_all :: "orders_table \<Rightarrow> request list \<Rightarrow> orders_table" where
  "serve_all db [] = db"
| "serve_all db (q # qs) = serve_all (serve db q) qs"

section \<open>The identifiers the service draws\<close>

text \<open>
  \<^verbatim>\<open>uuid.uuid4()\<close> is library code: it draws a random identifier, and its contract is
  that no two draws are equal. Identifiers are only ever compared for equality, so the
  draw made after \<open>drawn\<close> earlier ones is identified with the number \<open>drawn\<close>.
\<close>

definition uuid4 :: "nat \<Rightarrow> uuid" where
  "uuid4 drawn = drawn"

text \<open>
  The service with its source of identifiers: the table and the number of identifiers
  drawn so far. A \<^verbatim>\<open>POST\<close> that passes validation enters the handler, which draws one
  identifier; the other writing requests draw none. \<open>history\<close> is the state after a
  sequence of writing requests on the empty table (the two \<^verbatim>\<open>GET\<close> endpoints change
  neither component).
\<close>

datatype writing_request =
    Post OrderCreate token_payload timestamp
  | Put uuid OrderUpdate token_payload timestamp
  | Delete uuid token_payload timestamp

fun handle :: "orders_table \<times> nat \<Rightarrow> writing_request \<Rightarrow> orders_table \<times> nat" where
  "handle (db, drawn) (Post order_data u now) =
     (if OrderCreate_errors order_data \<noteq> [] then (db, drawn)
      else (fst (create_order db order_data u (uuid4 drawn) now), Suc drawn))"
| "handle (db, drawn) (Put order_id order_update u now) =
     (fst (update_order db order_id order_update u now), drawn)"
| "handle (db, drawn) (Delete order_id u now) =
     (fst (cancel_order db order_id u now), drawn)"

definition history :: "writing_request list \<Rightarrow> orders_table \<times> nat" where
  "history requests = foldl handle ([], 0) requests"

section \<open>The transition table as the specification words it\<close>

definition spec_transition_table :: "(string \<times> string) set" where
  "spec_transition_table =
     {(''created'', ''in_progress''), (''created'', ''cancelled''),
      (''in_progress'', ''completed''), (''in_progress'', ''cancelled'')}"

definition spec_allowed :: "string \<Rightarrow> string set" where
  "spec_allowed s =
     (if s = ''created'' then {''in_progress'', ''cancelled''}
      else if s = ''in_progress'' then {''completed'', ''cancelled''}
      else {})"

section \<open>Reading a listing\<close>





text \<open>
  The preconditions of creation as the specification words them: a price is a
  non-negative number and a total amount a positive number.
\<close>

definition non_negative_number :: "pyfloat \<Rightarrow> bool" where
  "non_negative_number v = (case v of Finite x \<Rightarrow> 0 \<le> x | _ \<Rightarrow> False)"

definition positive_number :: "pyfloat \<Rightarrow> bool" where
  "positive_number v = (case v of Finite x \<Rightarrow> 0 < x | _ \<Rightarrow> False)"

section \<open>Example data\<close>

definition sample_order :: "uuid \<Rightarrow> uuid \<Rightarrow> string \<Rightarrow> timestamp \<Rightarrow> order_row" where
  "sample_order k uid st t =
     \<lparr>col_id = k, col_user_id = uid, col_items = [], col_total_amount = Finite 20,
      col_status = st, col_created_at = t, col_updated_at = t\<rparr>"

definition client :: "uuid \<Rightarrow> token_payload" where
  "client uid = \<lparr>user_id = uid, role = ''client''\<rparr>"

definition admin :: "uuid \<Rightarrow> token_payload" where
  "admin uid = \<lparr>user_id = uid, role = ''admin''\<rparr>"

section \<open>Auxiliary facts\<close>

lemma allowed_eq:
  "set (dict_get VALID_STATUS_TRANSITIONS s) = spec_allowed s"
  by (auto simp: dict_get_def VALID_STATUS_TRANSITIONS_def spec_allowed_def)

lemma is_valid_iff:
  "is_valid_status_transition c n \<longleftrightarrow> (c, n) \<in> spec_transition_table"
  by (auto simp: is_valid_status_transition_def dict_get_def VALID_STATUS_TRANSITIONS_def spec_transition_table_def split: if_splits)

lemma select_by_id_update_status:
  "select_by_id (update_status db k s now) j =
     (if j = k then map_option (\<lambda>r. r\<lparr>col_status := s, col_updated_at := now\<rparr>) (select_by_id db j)
      else select_by_id db j)"
  by (induction db) (auto simp: select_by_id_def update_status_def)

lemma select_by_id_append:
  "select_by_id db k = Some r \<Longrightarrow> select_by_id (db @ xs) k = Some r"
  by (induction db) (auto simp: select_by_id_def)

lemma terminal_no_transition:
  "s = ''completed'' \<or> s = ''cancelled'' \<Longrightarrow> \<not> is_valid_status_transition s t"
  by (auto simp: is_valid_iff spec_transition_table_def)

lemma update_order_terminal:
  assumes "select_by_id db k = Some r" "col_status r = ''completed'' \<or> col_status r = ''cancelled''"
  shows "fst (update_order db k upd u now) = db"
  using assms by (auto simp: update_order_def Let_def terminal_no_transition split: option.splits)

lemma update_order_other:
  assumes "select_by_id db k = Some r" "j \<noteq> k"
  shows "select_by_id (fst (update_order db j upd u now)) k = Some r"
  using assms by (auto simp: update_order_def Let_def select_by_id_update_status split: option.splits)

lemma cancel_order_terminal:
  assumes "select_by_id db k = Some r" "col_status r = ''completed'' \<or> col_status r = ''cancelled''"
  shows "fst (cancel_order db k u now) = db"
  using assms by (auto simp: cancel_order_def Let_def terminal_no_transition split: option.splits)

lemma cancel_order_other:
  assumes "select_by_id db k = Some r" "j \<noteq> k"
  shows "select_by_id (fst (cancel_order db j u now)) k = Some r"
  using assms by (auto simp: cancel_order_def Let_def select_by_id_update_status split: option.splits)

lemma post_orders_keeps:
  assumes "select_by_id db k = Some r"
  shows "select_by_id (fst (post_orders db od u nid now)) k = Some r"
  using assms by (auto simp: post_orders_def create_order_def insert_order_def Let_def select_by_id_append split: sum.splits)

lemma serve_keeps_terminal:
  assumes "select_by_id db k = Some r" "col_status r = ''completed'' \<or> col_status r = ''cancelled''"
  shows "select_by_id (serve db q) k = Some r"
proof (cases q)
  case (PostOrders od u nid now)
  then show ?thesis using assms(1) by (simp add: post_orders_keeps)
next
  case (PutOrder j upd u now)
  show ?thesis
  proof (cases "j = k")
    case True
    then show ?thesis using PutOrder assms by (simp add: update_order_terminal)
  next
    case False
    then show ?thesis using PutOrder assms(1) by (simp add: update_order_other)
  qed
next
  case (DeleteOrder j u now)
  show ?thesis
  proof (cases "j = k")
    case True
    then show ?thesis using DeleteOrder assms by (simp add: cancel_order_terminal)
  next
    case False
    then show ?thesis using DeleteOrder assms(1) by (simp add: cancel_order_other)
  qed
qed (use assms(1) in simp_all)

lemma serve_all_keeps_terminal:
  assumes "select_by_id db k = Some r" "col_status r = ''completed'' \<or> col_status r = ''cancelled''"
  shows "select_by_id (serve_all db qs) k = Some r"
  using assms
proof (induction qs arbitrary: db)
  case Nil
  then show ?case by simp
next
  case (Cons q qs)
  then show ?case by (simp add: serve_keeps_terminal)
qed

lemma items_for_json_id:
  "map (\<lambda>item. \<lparr>product_id = product_id item, product_name = product_name item,
                  quantity = quantity item, price = price item\<rparr>) xs = (xs :: OrderItem list)"
  by (induction xs) auto

lemma OrderItem_errors_empty_iff:
  "OrderItem_errors i = [] \<longleftrightarrow> 0 < quantity i \<and> \<not> lt_zero (price i)"
  by (auto simp: OrderItem_errors_def field_errors_def validate_quantity_def validate_price_def)

lemma OrderCreate_errors_empty_iff:
  "OrderCreate_errors od = [] \<longleftrightarrow>
     (\<forall>i \<in> set (items od). 0 < quantity i \<and> \<not> lt_zero (price i))
     \<and> \<not> le_zero (total_amount od)"
  by (simp add: OrderCreate_errors_def OrderItem_errors_empty_iff field_errors_def
                validate_total_amount_def)

lemma non_negative_numberD:
  "non_negative_number v \<Longrightarrow> \<not> lt_zero v \<and> is_finite v"
  by (cases v) (simp_all add: non_negative_number_def)

lemma positive_numberD:
  "positive_number v \<Longrightarrow> \<not> le_zero v"
  by (cases v) (simp_all add: positive_number_def)

lemma update_status_ids:
  "map col_id (update_status db k s now) = map col_id db"
  by (induction db) (simp_all add: update_status_def)

lemma update_order_ids:
  "col_id ` set (fst (update_order db k upd u now)) = col_id ` set db"
proof -
  have "map col_id (fst (update_order db k upd u now)) = map col_id db"
    by (simp add: update_order_def Let_def update_status_ids split: option.splits)
  then have "set (map col_id (fst (update_order db k upd u now))) = set (map col_id db)"
    by simp
  then show ?thesis by simp
qed

lemma cancel_order_ids:
  "col_id ` set (fst (cancel_order db k u now)) = col_id ` set db"
proof -
  have "map col_id (fst (cancel_order db k u now)) = map col_id db"
    by (simp add: cancel_order_def Let_def update_status_ids split: option.splits)
  then have "set (map col_id (fst (cancel_order db k u now))) = set (map col_id db)"
    by simp
  then show ?thesis by simp
qed

lemma create_order_ids:
  "col_id ` set (fst (create_order db od u k now)) \<subseteq> insert k (col_id ` set db)"
  by (auto simp: create_order_def insert_order_def Let_def)

lemma handle_below:
  assumes "\<forall>k \<in> col_id ` set db. k < drawn"
  shows "\<forall>k \<in> col_id ` set (fst (handle (db, drawn) q)). k < snd (handle (db, drawn) q)"
proof (cases q)
  case (Post od u now)
  show ?thesis
  proof (cases "OrderCreate_errors od = []")
    case True
    have sub: "col_id ` set (fst (create_order db od u (uuid4 drawn) now))
            \<subseteq> insert drawn (col_id ` set db)"
      using create_order_ids [of db od u "uuid4 drawn" now] by (simp add: uuid4_def)
    have "\<forall>k \<in> col_id ` set (fst (create_order db od u (uuid4 drawn) now)). k < Suc drawn"
    proof
      fix k
      assume "k \<in> col_id ` set (fst (create_order db od u (uuid4 drawn) now))"
      then have "k = drawn \<or> k \<in> col_id ` set db" using sub by auto
      then show "k < Suc drawn" using assms by auto
    qed
    then show ?thesis using Post True by simp
  next
    case False
    then show ?thesis using Post assms by simp
  qed
next
  case (Put k upd u now)
  then show ?thesis using assms by (simp add: update_order_ids)
next
  case (Delete k u now)
  then show ?thesis using assms by (simp add: cancel_order_ids)
qed

lemma foldl_handle_below:
  assumes "\<forall>k \<in> col_id ` set (fst st). k < snd st"
  shows "\<forall>k \<in> col_id ` set (fst (foldl handle st qs)). k < snd (foldl handle st qs)"
  using assms
proof (induction qs arbitrary: st)
  case Nil
  then show ?case by simp
next
  case (Cons q qs)
  have "\<forall>k \<in> col_id ` set (fst (handle st q)). k < snd (handle st q)"
    using handle_below [of "fst st" "snd st" q] Cons.prems by simp
  then show ?case using Cons.IH [of "handle st q"] by simp
qed

lemma history_fresh:
  assumes "history requests = (db, drawn)"
  shows "uuid4 drawn \<notin> col_id ` set db"
proof -
  have "\<forall>k \<in> col_id ` set (fst (history requests)). k < snd (history requests)"
    unfolding history_def by (rule foldl_handle_below) simp
  then have "\<forall>k \<in> col_id ` set db. k < drawn" using assms by simp
  then show ?thesis by (auto simp: uuid4_def)
qed







text \<open>
  Every answer the database may give is an answer of the model. For rows that are
  pairwise different, as rows under different keys are, any rearrangement \<open>ys\<close> in
  descending order of \<^verbatim>\<open>created_at\<close> is returned under the ranking of each row by
  its position in \<open>ys\<close>.
\<close>

lemma position_nth:
  assumes "distinct ys" "i < length ys"
  shows "length (takeWhile (\<lambda>x. x \<noteq> ys ! i) ys) = i"
proof -
  have "takeWhile (\<lambda>x. x \<noteq> ys ! i) ys = take i ys"
  proof (rule takeWhile_eq_take_P_nth)
    fix j assume "j < i" "j < length ys"
    then show "ys ! j \<noteq> ys ! i"
      using assms by (simp add: nth_eq_iff_index_eq)
  next
    show "\<not> ys ! i \<noteq> ys ! i" by simp
  qed
  then show ?thesis using assms(2) by simp
qed

lemma filter_eq_single:
  "distinct zs \<Longrightarrow> k \<in> set zs \<Longrightarrow> filter (\<lambda>x. k = x) zs = [k]"
  by (induction zs) (auto simp: filter_empty_conv)

lemma sort_key_position:
  assumes "distinct xs" "mset ys = mset xs"
  shows "sort_key (\<lambda>r. length (takeWhile (\<lambda>x. x \<noteq> r) ys)) xs = ys"
proof (rule properties_for_sort_key)
  let ?f = "\<lambda>r. length (takeWhile (\<lambda>x. x \<noteq> r) ys)"
  have dy: "distinct ys" using assms by (metis mset_eq_imp_distinct_iff)
  show "mset ys = mset xs" by (rule assms(2))
  have inj: "?f a = ?f b \<longleftrightarrow> a = b" if "a \<in> set ys" "b \<in> set ys" for a b
  proof -
    from that obtain i j where "i < length ys" "ys ! i = a" "j < length ys" "ys ! j = b"
      by (auto simp: in_set_conv_nth)
    then show ?thesis using position_nth [OF dy] by (metis)
  qed
  show "filter (\<lambda>x. ?f k = ?f x) ys = filter (\<lambda>x. ?f k = ?f x) xs" if "k \<in> set ys" for k
  proof -
    have sxy: "set xs = set ys" using assms(2) by (metis set_mset_mset)
    have "filter (\<lambda>x. ?f k = ?f x) ys = filter (\<lambda>x. k = x) ys"
      using that by (intro filter_cong) (auto simp: inj)
    moreover have "filter (\<lambda>x. ?f k = ?f x) xs = filter (\<lambda>x. k = x) xs"
      using that sxy by (intro filter_cong) (auto simp: inj)
    moreover have "filter (\<lambda>x. k = x) ys = [k]"
      using dy that by (rule filter_eq_single)
    moreover have "filter (\<lambda>x. k = x) xs = [k]"
      using assms(1) that sxy by (intro filter_eq_single) simp_all
    ultimately show ?thesis by simp
  qed
  show "sorted (map ?f ys)"
  proof (subst sorted_iff_nth_mono, intro allI impI)
    fix i j assume "i \<le> j" "j < length (map ?f ys)"
    then show "map ?f ys ! i \<le> map ?f ys ! j"
      using position_nth [OF dy] by simp
  qed
qed

lemma order_by_complete:
  assumes "distinct xs" "mset ys = mset xs"
      and "sorted_wrt (\<lambda>a b. col_created_at b \<le> col_created_at a) ys"
  shows "order_by_created_at_desc (\<lambda>r. length (takeWhile (\<lambda>x. x \<noteq> r) ys)) xs = ys"
proof -
  have "sorted (map (\<lambda>r. - col_created_at r) ys)"
    using assms(3) by (simp add: sorted_map)
  then have "sort_key (\<lambda>r. - col_created_at r) ys = ys"
    by (rule sort_key_id_if_sorted)
  then show ?thesis
    using sort_key_position [OF assms(1,2)] by (simp add: order_by_created_at_desc_def)
qed

section \<open>Properties of the orders service\<close>

text \<open>
  C1. For an order held under \<open>order_id\<close>, a caller who is its owner or an admin, and a
  requested status that is one of the four recognised values, \<^verbatim>\<open>update_order\<close> succeeds
  (writing the new status and the clock into the row) exactly when the pair (current
  status, new status) is in the transition table; for every other pair it leaves the
  table as it is and answers \<^verbatim>\<open>INVALID_STATUS_TRANSITION\<close> with a message that carries
  the current status and the list of targets allowed from it, which is the table's row
  for that status.
\<close>


theorem update_order_transition_table:
  assumes "select_by_id db order_id = Some order"
      and "user_id u = col_user_id order \<or> role u = ''admin''"
      and "new_status \<in> {''created'', ''in_progress'', ''completed'', ''cancelled''}"
  shows "update_order db order_id \<lparr>status = Some new_status\<rparr> u now =
           (if (col_status order, new_status) \<in> spec_transition_table
            then (update_status db order_id new_status now,
                  ok (MessageData ''Order updated successfully''))
            else (db, failure ''INVALID_STATUS_TRANSITION''
                        (''Cannot change status from '' @ squote @ col_status order @ squote
                         @ '' to '' @ squote @ new_status @ squote
                         @ ''. Allowed transitions: ''
                         @ repr_list (dict_get VALID_STATUS_TRANSITIONS (col_status order)))))
         \<and> set (dict_get VALID_STATUS_TRANSITIONS (col_status order)) = spec_allowed (col_status order)
         \<and> select_by_id (update_status db order_id new_status now) order_id =
             Some (order\<lparr>col_status := new_status, col_updated_at := now\<rparr>)"
proof -
  have ne: "new_status \<noteq> []" using assms(3) by auto
  have rec: "new_status \<in> set ORDER_STATUSES" using assms(3) by (simp add: ORDER_STATUSES_def)
  show ?thesis
    using assms(1,2) ne rec
    by (auto simp: update_order_def Let_def is_valid_iff allowed_eq select_by_id_update_status)
qed

theorem update_order_transition_table_witness:
  "select_by_id [sample_order 1 7 ''created'' 0] 1 = Some (sample_order 1 7 ''created'' 0)
   \<and> (user_id (client 7) = col_user_id (sample_order 1 7 ''created'' 0)
        \<or> role (client 7) = ''admin'')
   \<and> ''in_progress'' \<in> {''created'', ''in_progress'', ''completed'', ''cancelled''}
   \<and> update_order [sample_order 1 7 ''created'' 0] 1 \<lparr>status = Some ''in_progress''\<rparr>
         (client 7) 5 =
       ([\<lparr>col_id = 1, col_user_id = 7, col_items = [], col_total_amount = Finite 20,
          col_status = ''in_progress'', col_created_at = 0, col_updated_at = 5\<rparr>],
        ok (MessageData ''Order updated successfully''))"
proof -
  have h1: "select_by_id [sample_order 1 7 ''created'' 0] 1 = Some (sample_order 1 7 ''created'' 0)"
    by (simp add: select_by_id_def sample_order_def)
  have h2: "user_id (client 7) = col_user_id (sample_order 1 7 ''created'' 0)
        \<or> role (client 7) = ''admin''"
    by (simp add: client_def sample_order_def)
  have h3: "''in_progress'' \<in> {''created'', ''in_progress'', ''completed'', ''cancelled''}"
    by simp
  show ?thesis
    using h1 h2 h3 update_order_transition_table [OF h1 h2 h3, of 5]
    by (simp add: spec_transition_table_def update_status_def sample_order_def)
qed

text \<open>
  C2. An order whose status is completed or cancelled keeps its row, status included,
  through every sequence of requests to the five endpoints by any callers. On such an
  order no \<^verbatim>\<open>update_order\<close> changes the table, an \<^verbatim>\<open>update_order\<close> that names a
  status (a transition attempt) is answered with a failure, and \<^verbatim>\<open>cancel_order\<close> fails
  and changes nothing, whoever calls.
\<close>

theorem terminal_status_is_final:
  assumes "select_by_id db order_id = Some order"
      and "col_status order = ''completed'' \<or> col_status order = ''cancelled''"
  shows "select_by_id (serve_all db reqs) order_id = Some order
       \<and> fst (update_order db order_id upd u now) = db
       \<and> ((\<exists>s. status upd = Some s \<and> s \<noteq> []) \<longrightarrow>
             \<not> success (snd (update_order db order_id upd u now)))
       \<and> fst (cancel_order db order_id u now) = db
       \<and> \<not> success (snd (cancel_order db order_id u now))"
proof -
  have nt: "\<And>t. \<not> is_valid_status_transition (col_status order) t"
    using assms(2) by (rule terminal_no_transition)
  have a: "select_by_id (serve_all db reqs) order_id = Some order"
    using assms by (rule serve_all_keeps_terminal)
  have b: "fst (update_order db order_id upd u now) = db"
    using assms by (rule update_order_terminal)
  have c: "(\<exists>s. status upd = Some s \<and> s \<noteq> []) \<longrightarrow>
             \<not> success (snd (update_order db order_id upd u now))"
    using assms(1) nt
    by (auto simp: update_order_def Let_def failure_def split: if_splits)
  have d: "fst (cancel_order db order_id u now) = db"
    using assms by (rule cancel_order_terminal)
  have e: "\<not> success (snd (cancel_order db order_id u now))"
    using assms(1) nt
    by (auto simp: cancel_order_def Let_def failure_def)
  from a b c d e show ?thesis by blast
qed

theorem terminal_status_is_final_witness:
  "select_by_id [sample_order 1 7 ''completed'' 0] 1 = Some (sample_order 1 7 ''completed'' 0)
   \<and> (col_status (sample_order 1 7 ''completed'' 0) = ''completed''
        \<or> col_status (sample_order 1 7 ''completed'' 0) = ''cancelled'')
   \<and> select_by_id
         (serve_all [sample_order 1 7 ''completed'' 0]
            [PutOrder 1 \<lparr>status = Some ''in_progress''\<rparr> (admin 9) 5, DeleteOrder 1 (client 7) 6])
         1 = Some (sample_order 1 7 ''completed'' 0)
   \<and> \<not> success (snd (update_order [sample_order 1 7 ''completed'' 0] 1
                          \<lparr>status = Some ''cancelled''\<rparr> (admin 9) 5))
   \<and> \<not> success (snd (cancel_order [sample_order 1 7 ''completed'' 0] 1 (client 7) 5))"
proof -
  have h1: "select_by_id [sample_order 1 7 ''completed'' 0] 1 = Some (sample_order 1 7 ''completed'' 0)"
    by (simp add: select_by_id_def sample_order_def)
  have h2: "col_status (sample_order 1 7 ''completed'' 0) = ''completed''
        \<or> col_status (sample_order 1 7 ''completed'' 0) = ''cancelled''"
    by (simp add: sample_order_def)
  show ?thesis
    using h1 h2
      terminal_status_is_final [OF h1 h2,
        of "[PutOrder 1 \<lparr>status = Some ''in_progress''\<rparr> (admin 9) 5, DeleteOrder 1 (client 7) 6]"
           "\<lparr>status = Some ''cancelled''\<rparr>" "admin 9" 5]
      terminal_status_is_final [OF h1 h2, of "[]" "\<lparr>status = None\<rparr>" "client 7" 5]
    by simp
qed

text \<open>
  C3. For an order held under \<open>order_id\<close>, \<^verbatim>\<open>cancel_order\<close> answers
  \<^verbatim>\<open>ACCESS_DENIED\<close> to every caller whose id is not the owner's, whatever the role
  (admin included); to the owner it answers \<^verbatim>\<open>CANNOT_CANCEL\<close> unless the status is
  created or in_progress, and otherwise succeeds. So it succeeds exactly when the caller
  is the owner and the status is created or in_progress, and after a success the stored
  status is cancelled.
\<close>

theorem cancel_order_owner_only:
  assumes "select_by_id db order_id = Some order"
  shows "cancel_order db order_id u now =
           (if user_id u \<noteq> col_user_id order
            then (db, failure ''ACCESS_DENIED'' ''Only order owner can cancel the order'')
            else if col_status order = ''created'' \<or> col_status order = ''in_progress''
            then (update_status db order_id ''cancelled'' now,
                  ok (MessageData ''Order cancelled successfully''))
            else (db, failure ''CANNOT_CANCEL''
                        (''Cannot cancel order with status '' @ squote @ col_status order @ squote
                         @ ''. Order can only be cancelled from '' @ squote @ ''created'' @ squote
                         @ '' or '' @ squote @ ''in_progress'' @ squote @ '' status.'')))
       \<and> (success (snd (cancel_order db order_id u now)) \<longleftrightarrow>
            user_id u = col_user_id order
            \<and> (col_status order = ''created'' \<or> col_status order = ''in_progress''))
       \<and> select_by_id (update_status db order_id ''cancelled'' now) order_id =
            Some (order\<lparr>col_status := ''cancelled'', col_updated_at := now\<rparr>)"
proof -
  have v: "is_valid_status_transition (col_status order) ''cancelled'' \<longleftrightarrow>
             col_status order = ''created'' \<or> col_status order = ''in_progress''"
    by (auto simp: is_valid_iff spec_transition_table_def)
  show ?thesis
    using assms
    by (auto simp: cancel_order_def Let_def v CANCELLED_def select_by_id_update_status
                   ok_def failure_def)
qed

theorem cancel_order_owner_only_witness:
  "select_by_id [sample_order 1 7 ''in_progress'' 0] 1 = Some (sample_order 1 7 ''in_progress'' 0)
   \<and> cancel_order [sample_order 1 7 ''in_progress'' 0] 1 (admin 9) 5 =
       ([sample_order 1 7 ''in_progress'' 0],
        failure ''ACCESS_DENIED'' ''Only order owner can cancel the order'')
   \<and> cancel_order [sample_order 1 7 ''in_progress'' 0] 1 (client 7) 5 =
       ([\<lparr>col_id = 1, col_user_id = 7, col_items = [], col_total_amount = Finite 20,
          col_status = ''cancelled'', col_created_at = 0, col_updated_at = 5\<rparr>],
        ok (MessageData ''Order cancelled successfully''))"
proof -
  have h1: "select_by_id [sample_order 1 7 ''in_progress'' 0] 1 = Some (sample_order 1 7 ''in_progress'' 0)"
    by (simp add: select_by_id_def sample_order_def)
  show ?thesis
    using h1 cancel_order_owner_only [OF h1, of "admin 9" 5]
      cancel_order_owner_only [OF h1, of "client 7" 5]
    by (simp add: update_status_def sample_order_def admin_def client_def)
qed

text \<open>
  C4, as stated, fails: an order with no items and a positive total amount is not refused.
  On the empty table the request below is answered with success, and the row is stored
  with an empty list of items.
\<close>

theorem post_orders_empty_items_accepted:
  "post_orders [] \<lparr>items = [], total_amount = Finite 20\<rparr> (client 7) (uuid4 0) 0 =
     ([\<lparr>col_id = 0, col_user_id = 7, col_items = [], col_total_amount = Finite 20,
        col_status = ''created'', col_created_at = 0, col_updated_at = 0\<rparr>],
      HTTP_200 (ok (OrderIdData 0)))"
  by (simp add: post_orders_def create_order_def insert_order_def Let_def client_def
                validate_user_exists_def CREATED_def OrderCreate_errors_def uuid4_def
                field_errors_def validate_total_amount_def)

text \<open>
  C4, as amended. \<^verbatim>\<open>POST /v1/orders\<close> is refused with a validation error, the table
  untouched, whenever some item has a quantity \<open>\<le> 0\<close> or a price \<open>< 0\<close>, or the total
  amount is \<open>\<le> 0\<close> (in any table, whatever identifier would be drawn). When every item
  has a positive quantity and a price that is a non-negative number (the list of items
  may be empty) and the total amount is a positive number, then in the table reached by
  any sequence of writing requests the identifier the handler draws is fresh, that is, no
  key of the table, and one row is added under it, owned by the caller, with status
  created, and the identifier is returned.
\<close>

theorem post_orders_validation:
  assumes "history requests = (table, drawn)"
  shows "((\<exists>i \<in> set (items od). quantity i \<le> 0 \<or> lt_zero (price i))
            \<or> le_zero (total_amount od) \<longrightarrow>
            post_orders db od u new_id now = (db, HTTP_422 (OrderCreate_errors od))
            \<and> OrderCreate_errors od \<noteq> [])
       \<and> ((\<forall>i \<in> set (items od). 0 < quantity i \<and> non_negative_number (price i))
            \<and> positive_number (total_amount od) \<longrightarrow>
            uuid4 drawn \<notin> col_id ` set table
            \<and> post_orders table od u (uuid4 drawn) now =
                (table @ [\<lparr>col_id = uuid4 drawn, col_user_id = user_id u, col_items = items od,
                            col_total_amount = total_amount od, col_status = ''created'',
                            col_created_at = now, col_updated_at = now\<rparr>],
                 HTTP_200 (ok (OrderIdData (uuid4 drawn)))))"
proof -
  have refused: "post_orders db od u new_id now = (db, HTTP_422 (OrderCreate_errors od))
                   \<and> OrderCreate_errors od \<noteq> []"
    if bad: "(\<exists>i \<in> set (items od). quantity i \<le> 0 \<or> lt_zero (price i))
               \<or> le_zero (total_amount od)"
  proof -
    from bad have "OrderCreate_errors od \<noteq> []"
      by (fastforce simp: OrderCreate_errors_empty_iff)
    then show ?thesis by (simp add: post_orders_def)
  qed
  have fresh: "uuid4 drawn \<notin> col_id ` set table"
    using assms by (rule history_fresh)
  have stored: "post_orders table od u (uuid4 drawn) now =
          (table @ [\<lparr>col_id = uuid4 drawn, col_user_id = user_id u, col_items = items od,
                      col_total_amount = total_amount od, col_status = ''created'',
                      col_created_at = now, col_updated_at = now\<rparr>],
           HTTP_200 (ok (OrderIdData (uuid4 drawn))))"
    if good: "(\<forall>i \<in> set (items od). 0 < quantity i \<and> non_negative_number (price i))
                \<and> positive_number (total_amount od)"
  proof -
    have valid: "OrderCreate_errors od = []"
      using good
      by (simp add: OrderCreate_errors_empty_iff non_negative_numberD positive_numberD)
    have json: "list_all (\<lambda>item. is_finite (price item)) (items od)"
      using good by (simp add: list_all_iff non_negative_numberD)
    show ?thesis
      using valid json fresh
      by (simp add: post_orders_def create_order_def insert_order_def Let_def
                    validate_user_exists_def items_for_json_id CREATED_def)
  qed
  from refused fresh stored show ?thesis by blast
qed

theorem post_orders_validation_witness:
  "history [Post \<lparr>items = [\<lparr>product_id = 3, product_name = ''bolt'', quantity = 2, price = Finite 10\<rparr>], total_amount = Finite 5\<rparr> (client 8) 0] =
     ([\<lparr>col_id = 0, col_user_id = 8, col_items = [\<lparr>product_id = 3, product_name = ''bolt'', quantity = 2, price = Finite 10\<rparr>],
        col_total_amount = Finite 5, col_status = ''created'',
        col_created_at = 0, col_updated_at = 0\<rparr>], 1)
   \<and> quantity \<lparr>product_id = 3, product_name = ''bolt'', quantity = 0, price = Finite 10\<rparr> \<le> 0
   \<and> post_orders []
        \<lparr>items = [\<lparr>product_id = 3, product_name = ''bolt'', quantity = 0, price = Finite 10\<rparr>], total_amount = Finite 20\<rparr> (client 7) 4 9 =
       ([], HTTP_422 [(''quantity'', ValueError ''Quantity must be positive'')])
   \<and> 0 < quantity \<lparr>product_id = 3, product_name = ''bolt'', quantity = 2, price = Finite 10\<rparr>
   \<and> non_negative_number (price \<lparr>product_id = 3, product_name = ''bolt'', quantity = 2, price = Finite 10\<rparr>)
   \<and> positive_number (Finite 20)
   \<and> post_orders
        [\<lparr>col_id = 0, col_user_id = 8, col_items = [\<lparr>product_id = 3, product_name = ''bolt'', quantity = 2, price = Finite 10\<rparr>],
          col_total_amount = Finite 5, col_status = ''created'',
          col_created_at = 0, col_updated_at = 0\<rparr>]
        \<lparr>items = [\<lparr>product_id = 3, product_name = ''bolt'', quantity = 2, price = Finite 10\<rparr>], total_amount = Finite 20\<rparr> (client 7) (uuid4 1) 9 =
       ([\<lparr>col_id = 0, col_user_id = 8, col_items = [\<lparr>product_id = 3, product_name = ''bolt'', quantity = 2, price = Finite 10\<rparr>],
          col_total_amount = Finite 5, col_status = ''created'',
          col_created_at = 0, col_updated_at = 0\<rparr>,
         \<lparr>col_id = 1, col_user_id = 7, col_items = [\<lparr>product_id = 3, product_name = ''bolt'', quantity = 2, price = Finite 10\<rparr>],
          col_total_amount = Finite 20, col_status = ''created'',
          col_created_at = 9, col_updated_at = 9\<rparr>],
        HTTP_200 (ok (OrderIdData 1)))"
proof -
  have h: "history [Post \<lparr>items = [\<lparr>product_id = 3, product_name = ''bolt'', quantity = 2, price = Finite 10\<rparr>], total_amount = Finite 5\<rparr> (client 8) 0] =
     ([\<lparr>col_id = 0, col_user_id = 8, col_items = [\<lparr>product_id = 3, product_name = ''bolt'', quantity = 2, price = Finite 10\<rparr>],
        col_total_amount = Finite 5, col_status = ''created'',
        col_created_at = 0, col_updated_at = 0\<rparr>], 1)"
    by (simp add: history_def OrderCreate_errors_def OrderItem_errors_def field_errors_def
                  validate_quantity_def validate_price_def validate_total_amount_def
                  create_order_def insert_order_def Let_def validate_user_exists_def
                  CREATED_def uuid4_def client_def)
  show ?thesis
    using h
      post_orders_validation [OF h,
        of "\<lparr>items = [\<lparr>product_id = 3, product_name = ''bolt'', quantity = 0, price = Finite 10\<rparr>], total_amount = Finite 20\<rparr>" "[]" "client 7" 4 9]
      post_orders_validation [OF h,
        of "\<lparr>items = [\<lparr>product_id = 3, product_name = ''bolt'', quantity = 2, price = Finite 10\<rparr>], total_amount = Finite 20\<rparr>" "[]" "client 7" 4 9]
    by (simp add: client_def OrderCreate_errors_def OrderItem_errors_def field_errors_def
                  validate_quantity_def validate_price_def validate_total_amount_def
                  non_negative_number_def positive_number_def uuid4_def)
qed

text \<open>
  C5. For an order held under \<open>order_id\<close> and a caller who is neither its owner nor an
  admin, \<^verbatim>\<open>update_order\<close> answers \<^verbatim>\<open>ACCESS_DENIED\<close> with a fixed message and leaves
  the table as it is, whatever the request body holds (no status, an unrecognised one, a
  legal or an illegal target) and whatever the order's current status is: the answers to
  any two request bodies are equal.
\<close>

theorem update_order_access_denied_first:
  assumes "select_by_id db order_id = Some order"
      and "user_id u \<noteq> col_user_id order"
      and "role u \<noteq> ''admin''"
  shows "update_order db order_id upd u now =
           (db, failure ''ACCESS_DENIED'' ''Access to update this order denied'')
       \<and> update_order db order_id upd u now = update_order db order_id upd' u now'"
  using assms by (auto simp: update_order_def Let_def)

theorem update_order_access_denied_first_witness:
  "select_by_id [sample_order 1 7 ''created'' 0] 1 = Some (sample_order 1 7 ''created'' 0)
   \<and> user_id (client 8) \<noteq> col_user_id (sample_order 1 7 ''created'' 0)
   \<and> role (client 8) \<noteq> ''admin''
   \<and> update_order [sample_order 1 7 ''created'' 0] 1 \<lparr>status = Some ''in_progress''\<rparr>
        (client 8) 5 =
       ([sample_order 1 7 ''created'' 0],
        failure ''ACCESS_DENIED'' ''Access to update this order denied'')
   \<and> update_order [sample_order 1 7 ''created'' 0] 1 \<lparr>status = Some ''in_progress''\<rparr>
        (client 8) 5 =
      update_order [sample_order 1 7 ''created'' 0] 1 \<lparr>status = Some ''completed''\<rparr>
        (client 8) 6"
proof -
  have h1: "select_by_id [sample_order 1 7 ''created'' 0] 1 = Some (sample_order 1 7 ''created'' 0)"
    by (simp add: select_by_id_def sample_order_def)
  have h2: "user_id (client 8) \<noteq> col_user_id (sample_order 1 7 ''created'' 0)"
    by (simp add: client_def sample_order_def)
  have h3: "role (client 8) \<noteq> ''admin''"
    by (simp add: client_def)
  show ?thesis
    using h1 h2 h3
      update_order_access_denied_first [OF h1 h2 h3,
        of "\<lparr>status = Some ''in_progress''\<rparr>" 5 "\<lparr>status = Some ''completed''\<rparr>" 6]
    by blast
qed






text \<open>
  C8. If a request to move an order to the status \<open>new_status\<close> succeeds, the same
  request repeated on the resulting table fails with \<^verbatim>\<open>INVALID_STATUS_TRANSITION\<close>,
  the current status now being \<open>new_status\<close> itself, which no row of the transition
  table allows as its own target.
\<close>

theorem update_order_not_idempotent:
  assumes "new_status \<noteq> []"
      and "update_order db order_id \<lparr>status = Some new_status\<rparr> u now = (db', r)"
      and "success r"
  shows "update_order db' order_id \<lparr>status = Some new_status\<rparr> u now' =
           (db', failure ''INVALID_STATUS_TRANSITION''
                   (''Cannot change status from '' @ squote @ new_status @ squote
                    @ '' to '' @ squote @ new_status @ squote
                    @ ''. Allowed transitions: ''
                    @ repr_list (dict_get VALID_STATUS_TRANSITIONS new_status)))"
proof -
  have nv: "\<not> is_valid_status_transition new_status new_status"
    by (auto simp: is_valid_iff spec_transition_table_def)
  from assms obtain order where
    o: "select_by_id db order_id = Some order"
    and auth: "\<not> (col_user_id order \<noteq> user_id u \<and> role u \<noteq> ''admin'')"
    and rec: "new_status \<in> set ORDER_STATUSES"
    and db': "db' = update_status db order_id new_status now"
    by (auto simp: update_order_def Let_def failure_def split: option.splits if_splits)
  have "select_by_id db' order_id = Some (order\<lparr>col_status := new_status, col_updated_at := now\<rparr>)"
    using o db' by (simp add: select_by_id_update_status)
  then show ?thesis
    using auth rec nv assms(1) by (auto simp: update_order_def Let_def)
qed

theorem update_order_not_idempotent_witness:
  "''in_progress'' \<noteq> []
   \<and> update_order [sample_order 1 7 ''created'' 0] 1 \<lparr>status = Some ''in_progress''\<rparr>
        (client 7) 5 =
       ([\<lparr>col_id = 1, col_user_id = 7, col_items = [], col_total_amount = Finite 20,
          col_status = ''in_progress'', col_created_at = 0, col_updated_at = 5\<rparr>],
        ok (MessageData ''Order updated successfully''))
   \<and> success (ok (MessageData ''Order updated successfully''))
   \<and> error (snd (update_order
        [\<lparr>col_id = 1, col_user_id = 7, col_items = [], col_total_amount = Finite 20,
          col_status = ''in_progress'', col_created_at = 0, col_updated_at = 5\<rparr>]
        1 \<lparr>status = Some ''in_progress''\<rparr> (client 7) 6)) =
       Some (''INVALID_STATUS_TRANSITION'',
             ''Cannot change status from '' @ squote @ ''in_progress'' @ squote
             @ '' to '' @ squote @ ''in_progress'' @ squote
             @ ''. Allowed transitions: ['' @ squote @ ''completed'' @ squote
             @ '', '' @ squote @ ''cancelled'' @ squote @ '']'')"
proof -
  have h1: "''in_progress'' \<noteq> []" by simp
  have h2: "update_order [sample_order 1 7 ''created'' 0] 1 \<lparr>status = Some ''in_progress''\<rparr>
        (client 7) 5 =
       ([\<lparr>col_id = 1, col_user_id = 7, col_items = [], col_total_amount = Finite 20,
          col_status = ''in_progress'', col_created_at = 0, col_updated_at = 5\<rparr>],
        ok (MessageData ''Order updated successfully''))"
    by (simp add: update_order_def select_by_id_def sample_order_def client_def Let_def
                  ORDER_STATUSES_def is_valid_status_transition_def dict_get_def
                  VALID_STATUS_TRANSITIONS_def update_status_def)
  have h3: "success (ok (MessageData ''Order updated successfully''))"
    by (simp add: ok_def)
  show ?thesis
    using h1 h2 h3 update_order_not_idempotent [OF h1 h2 h3, of 6]
    by (simp add: failure_def repr_list_def dict_get_def VALID_STATUS_TRANSITIONS_def)
qed

text \<open>
  C9. A listing request with \<open>page < 1\<close>, \<open>size < 1\<close> or \<open>size > 100\<close> is refused with
  a validation error that names the violated bounds; no page of orders is computed from
  values moved into range, and the answer is the same whatever the table holds and
  however the database would order its rows.
\<close>

theorem get_orders_rejects_out_of_range:
  assumes "page < 1 \<or> size' < 1 \<or> size' > 100"
  shows "get_orders db u (Some page) (Some size') status_filter tiebreak =
           HTTP_422 (query_errors page size')
       \<and> query_errors page size' \<noteq> []
       \<and> get_orders db' u (Some page) (Some size') status_filter tiebreak' =
           get_orders db u (Some page) (Some size') status_filter tiebreak"
  using assms by (auto simp: get_orders_def query_errors_def Let_def)

theorem get_orders_rejects_out_of_range_witness:
  "((0::int) < 1 \<or> (500::int) < 1 \<or> (500::int) > 100)
   \<and> get_orders [sample_order 1 7 ''created'' 0] (client 7) (Some 0) (Some 500) None col_id =
       HTTP_422 [(''page'', GreaterEqual 1), (''size'', LessEqual 100)]
   \<and> get_orders [] (client 7) (Some 0) (Some 500) None col_user_id =
       get_orders [sample_order 1 7 ''created'' 0] (client 7) (Some 0) (Some 500) None col_id"
proof -
  have h: "(0::int) < 1 \<or> (500::int) < 1 \<or> (500::int) > 100" by simp
  show ?thesis
    using get_orders_rejects_out_of_range
            [OF h, of "[sample_order 1 7 ''created'' 0]" "client 7" None col_id "[]" col_user_id]
    by (simp add: query_errors_def)
qed

text \<open>
  C10. For an order held under \<open>order_id\<close> and a caller who is its owner or an admin, an
  update request whose status is absent, null or the empty string is answered with
  success and leaves the whole table, and so the row with its status and
  \<^verbatim>\<open>updated_at\<close>, unchanged.
\<close>

theorem update_order_without_status:
  assumes "select_by_id db order_id = Some order"
      and "user_id u = col_user_id order \<or> role u = ''admin''"
      and "status upd = None \<or> status upd = Some []"
  shows "update_order db order_id upd u now =
           (db, ok (MessageData ''Order updated successfully''))"
  using assms by (auto simp: update_order_def Let_def)

theorem update_order_without_status_witness:
  "select_by_id [sample_order 1 7 ''created'' 0] 1 = Some (sample_order 1 7 ''created'' 0)
   \<and> (user_id (admin 9) = col_user_id (sample_order 1 7 ''created'' 0)
        \<or> role (admin 9) = ''admin'')
   \<and> (status \<lparr>status = Some ''''\<rparr> = None \<or> status \<lparr>status = Some ''''\<rparr> = Some [])
   \<and> update_order [sample_order 1 7 ''created'' 0] 1 \<lparr>status = Some ''''\<rparr> (admin 9) 5 =
       ([sample_order 1 7 ''created'' 0], ok (MessageData ''Order updated successfully''))"
proof -
  have h1: "select_by_id [sample_order 1 7 ''created'' 0] 1 = Some (sample_order 1 7 ''created'' 0)"
    by (simp add: select_by_id_def sample_order_def)
  have h2: "user_id (admin 9) = col_user_id (sample_order 1 7 ''created'' 0)
        \<or> role (admin 9) = ''admin''"
    by (simp add: admin_def)
  have h3: "status \<lparr>status = Some ''''\<rparr> = None \<or> status \<lparr>status = Some ''''\<rparr> = Some []"
    by simp
  show ?thesis
    using h1 h2 h3 update_order_without_status [OF h1 h2 h3, of 5]
    by simp
qed

end
